theory Spec2Isabelle
  imports Complex_Main "HOL-Library.AList"
begin

section \<open>The task scheduler of \<^verbatim>\<open>app/services/task_scheduler.py\<close>\<close>

text \<open>
  The class \<^verbatim>\<open>TaskScheduler\<close> keeps an in-memory registry
  \<^verbatim>\<open>self.tasks: Dict[str, Dict[str, Any]]\<close> and three housekeeping jobs that walk over
  it. The embedding follows the task schema of the class docstring:

  \<^item> a task is a dictionary whose keys may be missing; every field of the record below is
    an \<open>option\<close>, \<open>None\<close> standing for "key not in the dictionary" (what
    \<^verbatim>\<open>t.get(key)\<close> answers with \<^verbatim>\<open>None\<close>);
  \<^item> a deadline is a \<^verbatim>\<open>datetime\<close> or a string, the two cases the jobs tell apart with
    \<^verbatim>\<open>isinstance(deadline, str)\<close>;
  \<^item> a \<^verbatim>\<open>datetime\<close> is naive or timezone-aware; \<^verbatim>\<open>datetime.utcnow()\<close> is naive, an
    instant counted in microseconds (the resolution of Python's \<^verbatim>\<open>datetime\<close>), and
    comparing or subtracting a naive and an aware \<^verbatim>\<open>datetime\<close> raises \<^verbatim>\<open>TypeError\<close>;
  \<^item> a job that raises stops where it is: the tasks it has walked over keep their
    changes, the others are as they were;
  \<^item> Python dictionaries keep insertion order, so the registry and the metadata are
    association lists, written with \<open>AList.update\<close> (which replaces in place or
    appends) and read with \<open>map_of\<close>;
  \<^item> every task of the registry is a dictionary object of its own (no two entries
    share a task or a metadata dictionary).
\<close>

subsection \<open>Values and tasks\<close>

datatype pyval =
    PNone
  | PStr string
  | PInt int
  | PList "pyval list"
  | PDict "(string \<times> pyval) list"

type_synonym instant = int

datatype datetime = Naive instant | Aware instant

datatype deadline_value = DDatetime datetime | DStr string

record task =
  task_id :: "string option"
  title :: "string option"
  description :: "string option"
  priority :: "int option"
  deadline :: "deadline_value option"
  estimated_duration :: "int option"
  status :: "string option"
  tags :: "string list option"
  assignee :: "string option"
  metadata :: "(string \<times> pyval) list option"

type_synonym registry = "(string \<times> task) list"

text \<open>
  The two library calls on timestamps, \<^verbatim>\<open>datetime.fromisoformat\<close> (which raises on
  text it cannot read: \<open>None\<close>; text with a UTC offset gives an aware
  \<^verbatim>\<open>datetime\<close>) and \<^verbatim>\<open>isoformat\<close> of the naive \<^verbatim>\<open>now\<close>, are parameters of the model.
\<close>

record dtlib =
  fromisoformat :: "string \<Rightarrow> datetime option"
  isoformat :: "instant \<Rightarrow> string"

text \<open>\<^verbatim>\<open>deadline < now\<close> and \<^verbatim>\<open>deadline - now\<close> with the naive \<^verbatim>\<open>now\<close> of
  \<^verbatim>\<open>datetime.utcnow()\<close>.\<close>

datatype job_error = TypeError string

definition datetime_less :: "datetime \<Rightarrow> instant \<Rightarrow> job_error + bool" where
  "datetime_less d now =
     (case d of
        Naive i \<Rightarrow> Inr (i < now)
      | Aware _ \<Rightarrow> Inl (TypeError ''can't compare offset-naive and offset-aware datetimes''))"

definition datetime_minus :: "datetime \<Rightarrow> instant \<Rightarrow> job_error + int" where
  "datetime_minus d now =
     (case d of
        Naive i \<Rightarrow> Inr (i - now)
      | Aware _ \<Rightarrow> Inl (TypeError ''can't subtract offset-naive and offset-aware datetimes''))"

text \<open>\<^verbatim>\<open>t.setdefault("metadata", {}); t["metadata"][k] = v\<close>\<close>

definition put_metadata :: "string \<Rightarrow> pyval \<Rightarrow> task \<Rightarrow> task" where
  "put_metadata k v t =
     t\<lparr>metadata := Some (AList.update k v (case metadata t of None \<Rightarrow> [] | Some m \<Rightarrow> m))\<rparr>"

text \<open>\<^verbatim>\<open>t["metadata"].get(k)\<close>, \<open>None\<close> when the task has no metadata or no such key.\<close>

definition get_metadata :: "task \<Rightarrow> string \<Rightarrow> pyval option" where
  "get_metadata t k = (case metadata t of None \<Rightarrow> None | Some m \<Rightarrow> map_of m k)"

text \<open>
  \<^verbatim>\<open>for t in self.tasks.values(): body\<close>, for a body that changes the task in hand or
  raises before it has changed it: the loop stops at the first task whose body raises
  and leaves that task and the ones after it as they were.
\<close>

fun for_each_task ::
  "(task \<Rightarrow> job_error + task) \<Rightarrow> registry \<Rightarrow> (job_error + unit) \<times> registry" where
  "for_each_task body [] = (Inr (), [])"
| "for_each_task body ((k, t) # rest) =
     (case body t of
        Inl e \<Rightarrow> (Inl e, (k, t) # rest)
      | Inr t' \<Rightarrow> (case for_each_task body rest of (r, rest') \<Rightarrow> (r, (k, t') # rest')))"

subsection \<open>Deadline sweep\<close>

text \<open>Python's truth value of \<^verbatim>\<open>t.get("deadline")\<close>: \<^verbatim>\<open>None\<close> and the empty string are
  false, a \<^verbatim>\<open>datetime\<close> is always true.\<close>

definition truthy_deadline :: "deadline_value option \<Rightarrow> bool" where
  "truthy_deadline d =
     (case d of None \<Rightarrow> False | Some (DStr s) \<Rightarrow> s \<noteq> [] | Some (DDatetime _) \<Rightarrow> True)"

text \<open>The body of the loop after the deadline has become a \<^verbatim>\<open>datetime\<close> (the
  \<^verbatim>\<open># Mark overdue\<close> block); the comparison comes first and is outside the
  \<^verbatim>\<open>try\<close>.\<close>

definition mark_overdue :: "dtlib \<Rightarrow> instant \<Rightarrow> datetime \<Rightarrow> task \<Rightarrow> job_error + task" where
  "mark_overdue lib now d t =
     (case datetime_less d now of
        Inl e \<Rightarrow> Inl e
      | Inr before \<Rightarrow>
          Inr (if before \<and> status t \<notin> {Some ''overdue'', Some ''done''}
               then put_metadata ''overdue_since'' (PStr (isoformat lib now))
                      (t\<lparr>status := Some ''overdue''\<rparr>)
               else t))"

text \<open>One iteration of \<^verbatim>\<open>for t in self.tasks.values()\<close> in \<^verbatim>\<open>_check_deadlines\<close>; each
  \<^verbatim>\<open>continue\<close> returns the task as it is.\<close>

definition check_deadline_task :: "dtlib \<Rightarrow> instant \<Rightarrow> task \<Rightarrow> job_error + task" where
  "check_deadline_task lib now t =
     (if \<not> truthy_deadline (deadline t) \<or> status t = Some ''done'' then Inr t
      else case deadline t of
             None \<Rightarrow> Inr t
           | Some (DStr s) \<Rightarrow>
               (case fromisoformat lib s of None \<Rightarrow> Inr t | Some d \<Rightarrow> mark_overdue lib now d t)
           | Some (DDatetime d) \<Rightarrow> mark_overdue lib now d t)"

definition check_deadlines ::
  "dtlib \<Rightarrow> instant \<Rightarrow> registry \<Rightarrow> (job_error + unit) \<times> registry" where
  "check_deadlines lib now tasks = for_each_task (check_deadline_task lib now) tasks"

subsection \<open>Priority recalculation\<close>

text \<open>\<^verbatim>\<open>timedelta.total_seconds()\<close>: the difference of two instants, in seconds. The job
  compares it with \<open>0\<close>, \<open>3600\<close> and \<open>24 * 3600\<close> only, whole numbers of microseconds,
  where the float of the source and the exact quotient order the same way.\<close>

definition total_seconds :: "int \<Rightarrow> real" where
  "total_seconds td = real_of_int td / 1000000"

text \<open>The deadline as \<^verbatim>\<open>_recalculate_priorities\<close> reads it: a string is parsed, and one
  that does not parse counts as no deadline.\<close>

definition parsed_deadline :: "dtlib \<Rightarrow> task \<Rightarrow> datetime option" where
  "parsed_deadline lib t =
     (case deadline t of
        None \<Rightarrow> None
      | Some (DStr s) \<Rightarrow> fromisoformat lib s
      | Some (DDatetime d) \<Rightarrow> Some d)"

text \<open>The subtraction is outside the \<^verbatim>\<open>try\<close>.\<close>

definition urgency_bump :: "instant \<Rightarrow> datetime option \<Rightarrow> job_error + int" where
  "urgency_bump now dl =
     (case dl of
        None \<Rightarrow> Inr 0
      | Some d \<Rightarrow>
          (case datetime_minus d now of
             Inl e \<Rightarrow> Inl e
           | Inr td \<Rightarrow>
               Inr (let delta = total_seconds td
                    in if delta \<le> 0 then - 2
                       else if delta < 3600 then - 1
                       else if delta < 24 * 3600 then 0
                       else 1)))"

definition recalculate_priority_task :: "dtlib \<Rightarrow> instant \<Rightarrow> task \<Rightarrow> job_error + task" where
  "recalculate_priority_task lib now t =
     (if status t = Some ''done'' then Inr t
      else
        (let base = (case priority t of None \<Rightarrow> 3 | Some p \<Rightarrow> p)
         in case urgency_bump now (parsed_deadline lib t) of
              Inl e \<Rightarrow> Inl e
            | Inr bump \<Rightarrow> Inr (t\<lparr>priority := Some (max 1 (min 5 (base + bump)))\<rparr>)))"

definition recalculate_priorities ::
  "dtlib \<Rightarrow> instant \<Rightarrow> registry \<Rightarrow> (job_error + unit) \<times> registry" where
  "recalculate_priorities lib now tasks = for_each_task (recalculate_priority_task lib now) tasks"

subsection \<open>Suggestion refresh\<close>

text \<open>
  The engine's \<^verbatim>\<open>suggest_next_actions\<close> is a parameter: \<open>Inr\<close> what it returns,
  \<open>Inl\<close> the text \<^verbatim>\<open>str(e)\<close> of the exception it raises. The list
  \<^verbatim>\<open>pending_tasks\<close> holds the registry's own task objects, so the loop over it
  changes the registry's tasks that are not done; the handler walks over
  \<^verbatim>\<open>self.tasks.values()\<close>, all of them.
\<close>

definition attach_suggestions :: "pyval \<Rightarrow> task \<Rightarrow> task" where
  "attach_suggestions suggestions t =
     put_metadata ''ai_suggestions''
       (case suggestions of
          PDict d \<Rightarrow>
            (case task_id t of
               None \<Rightarrow> PNone
             | Some i \<Rightarrow> (case map_of d i of None \<Rightarrow> PNone | Some v \<Rightarrow> v))
        | _ \<Rightarrow> suggestions)
       t"

definition generate_ai_suggestions ::
  "(task list \<Rightarrow> string + pyval) \<Rightarrow> registry \<Rightarrow> registry" where
  "generate_ai_suggestions suggest_next_actions tasks =
     (let pending_tasks = filter (\<lambda>t. status t \<noteq> Some ''done'') (map snd tasks)
      in case suggest_next_actions pending_tasks of
           Inr suggestions \<Rightarrow>
             map (\<lambda>(k, t). (k, if status t \<noteq> Some ''done''
                                then attach_suggestions suggestions t else t)) tasks
         | Inl e \<Rightarrow>
             map (\<lambda>(k, t). (k, put_metadata ''ai_suggestions_error'' (PStr e) t)) tasks)"

subsection \<open>Registry operations\<close>

datatype error = ValueError string

text \<open>A method that may raise returns the outcome and the state it leaves behind.\<close>

definition register_task :: "task \<Rightarrow> registry \<Rightarrow> (error + unit) \<times> registry" where
  "register_task task tasks =
     (case task_id task of
        None \<Rightarrow> (Inl (ValueError (''Task must include an 'id'' @ [CHR 0x27])), tasks)
      | Some i \<Rightarrow>
          (let task = task\<lparr>priority := Some (case priority task of None \<Rightarrow> 3 | Some p \<Rightarrow> p)\<rparr>;
               task = task\<lparr>status := Some (case status task of None \<Rightarrow> ''pending'' | Some s \<Rightarrow> s)\<rparr>;
               task = task\<lparr>tags := Some (case tags task of None \<Rightarrow> [] | Some g \<Rightarrow> g)\<rparr>;
               task = task\<lparr>metadata := Some (case metadata task of None \<Rightarrow> [] | Some m \<Rightarrow> m)\<rparr>
           in (Inr (), AList.update i task tasks)))"

definition remove_task :: "string \<Rightarrow> registry \<Rightarrow> registry" where
  "remove_task tid tasks = AList.delete tid tasks"

text \<open>What \<^verbatim>\<open>register_task\<close> maintains: every task is stored under its own id.\<close>

definition registered :: "registry \<Rightarrow> bool" where
  "registered tasks = (\<forall>(k, t) \<in> set tasks. task_id t = Some k)"

subsection \<open>Cron jobs\<close>

text \<open>\<^verbatim>\<open>str.isspace\<close> on one character (code points below 256) and \<^verbatim>\<open>str.split()\<close>
  without a separator: the maximal runs of characters that are not whitespace.\<close>

definition isspace :: "char \<Rightarrow> bool" where
  "isspace c = ((of_char c :: nat) \<in> {9, 10, 11, 12, 13, 28, 29, 30, 31, 32, 133, 160})"

fun split_from :: "string \<Rightarrow> string \<Rightarrow> string list" where
  "split_from w [] = (if w = [] then [] else [w])"
| "split_from w (c # cs) =
     (if isspace c then (if w = [] then split_from [] cs else w # split_from [] cs)
      else split_from (w @ [c]) cs)"

definition str_split :: "string \<Rightarrow> string list" where
  "str_split s = split_from [] s"

text \<open>
  The scheduler library is a parameter: \<^verbatim>\<open>CronTrigger\<close> builds a trigger from the five
  fields or raises, \<^verbatim>\<open>add_job\<close> (with \<^verbatim>\<open>replace_existing=True\<close>) puts a job into the
  job store \<open>jobs\<close>.
\<close>

definition schedule_cron ::
  "(string \<Rightarrow> string \<Rightarrow> string \<Rightarrow> string \<Rightarrow> string \<Rightarrow> error + 'trigger) \<Rightarrow>
   ('func \<Rightarrow> 'trigger \<Rightarrow> string option \<Rightarrow> 'kwargs \<Rightarrow> 'jobs \<Rightarrow> 'jobs) \<Rightarrow>
   'func \<Rightarrow> string \<Rightarrow> string option \<Rightarrow> 'kwargs \<Rightarrow> 'jobs \<Rightarrow> (error + unit) \<times> 'jobs" where
  "schedule_cron CronTrigger add_job func cron job_id kwargs jobs =
     (let fields = str_split cron
      in if length fields \<noteq> 5
         then (Inl (ValueError ''Cron expression must have 5 fields: m h dom mon dow''), jobs)
         else
           (case fields of
              [minute, hour, day, month, dow] \<Rightarrow>
                (case CronTrigger minute hour day month dow of
                   Inl e \<Rightarrow> (Inl e, jobs)
                 | Inr trigger \<Rightarrow> (Inr (), add_job func trigger job_id kwargs jobs))
            | _ \<Rightarrow> (Inl (ValueError ''Cron expression must have 5 fields: m h dom mon dow''), jobs)))"

subsection \<open>On-demand proposals\<close>

definition empty_task :: task where
  "empty_task = \<lparr>task_id = None, title = None, description = None, priority = None,
     deadline = None, estimated_duration = None, status = None, tags = None,
     assignee = None, metadata = None\<rparr>"

text \<open>The engine's \<^verbatim>\<open>propose_schedule\<close> is a parameter, \<open>Inl\<close> when it raises.
  \<^verbatim>\<open>if not task\<close> is true when the key is missing and when the task is the empty
  dictionary.\<close>

definition suggest_schedule_for_task ::
  "(task \<Rightarrow> string + 'proposal) \<Rightarrow> string \<Rightarrow> registry \<Rightarrow> 'proposal option" where
  "suggest_schedule_for_task propose_schedule tid tasks =
     (case map_of tasks tid of
        None \<Rightarrow> None
      | Some task \<Rightarrow>
          if task = empty_task then None
          else (case propose_schedule task of
                  Inr proposal \<Rightarrow> Some proposal
                | Inl e \<Rightarrow> None))"

subsection \<open>Example data\<close>

text \<open>
  The scenarios of the design document, at the instant 02:00:00 of the first day of the
  epoch. \<open>example_lib\<close> stands for the library on the texts and instants the
  examples use.
\<close>

definition example_now :: instant where
  "example_now = 7200000000"

definition example_lib :: dtlib where
  "example_lib =
     \<lparr>fromisoformat = (\<lambda>s.
        if s = ''1970-01-01T01:00:00'' then Some (Naive 3600000000)
        else if s = ''1970-01-01T02:30:00'' then Some (Naive 9000000000)
        else if s = ''1970-01-01T01:00:00+00:00'' then Some (Aware 3600000000)
        else None),
      isoformat = (\<lambda>d. if d = 7200000000 then ''1970-01-01T02:00:00'' else ''1970-01-01T00:00:00'')\<rparr>"

text \<open>A task as \<^verbatim>\<open>register_task\<close> leaves it when only the id was given.\<close>

definition new_task :: "string \<Rightarrow> task" where
  "new_task i = empty_task\<lparr>task_id := Some i, priority := Some 3, status := Some ''pending'',
     tags := Some [], metadata := Some []\<rparr>"

text \<open>Deadline one hour ago, pending.\<close>

definition task_t1 :: task where
  "task_t1 = (new_task ''t1'')\<lparr>deadline := Some (DDatetime (Naive 3600000000))\<rparr>"

text \<open>Priority 3, deadline in thirty minutes.\<close>

definition task_t2 :: task where
  "task_t2 = (new_task ''t2'')\<lparr>deadline := Some (DDatetime (Naive 9000000000))\<rparr>"

text \<open>Priority 3, no deadline.\<close>

definition task_t3 :: task where
  "task_t3 = new_task ''t3''"

text \<open>Done, with the trace of an earlier failed suggestion refresh.\<close>

definition task_t4 :: task where
  "task_t4 = (new_task ''t4'')\<lparr>deadline := Some (DDatetime (Naive 3600000000)),
     status := Some ''done'', metadata := Some [(''ai_suggestions_error'', PStr ''old'')]\<rparr>"

text \<open>A deadline that is no ISO-8601 text.\<close>

definition task_t5 :: task where
  "task_t5 = (new_task ''t5'')\<lparr>deadline := Some (DStr ''yesterday'')\<rparr>"

text \<open>A deadline written with a UTC offset: \<^verbatim>\<open>fromisoformat\<close> makes it an aware
  \<^verbatim>\<open>datetime\<close>.\<close>

definition task_t6 :: task where
  "task_t6 = (new_task ''t6'')\<lparr>deadline := Some (DStr ''1970-01-01T01:00:00+00:00'')\<rparr>"

text \<open>Priority 3, deadline in thirty minutes, written as text.\<close>

definition task_t7 :: task where
  "task_t7 = (new_task ''t7'')\<lparr>deadline := Some (DStr ''1970-01-01T02:30:00'')\<rparr>"

text \<open>Priority 3, deadline one hour ago, written as text.\<close>

definition task_t8 :: task where
  "task_t8 = (new_task ''t8'')\<lparr>deadline := Some (DStr ''1970-01-01T01:00:00'')\<rparr>"

text \<open>No deadline, and a priority beyond the range.\<close>

definition task_t9 :: task where
  "task_t9 = (new_task ''t9'')\<lparr>priority := Some 9\<rparr>"

text \<open>Priority 3, deadline in exactly one hour, and in exactly twenty-four hours.\<close>

definition task_t10 :: task where
  "task_t10 = (new_task ''t10'')\<lparr>deadline := Some (DDatetime (Naive 10800000000))\<rparr>"

definition task_t11 :: task where
  "task_t11 = (new_task ''t11'')\<lparr>deadline := Some (DDatetime (Naive 93600000000))\<rparr>"

text \<open>A second registration under the id \<open>t1\<close>, with a title and nothing else.\<close>

definition task_t1_again :: task where
  "task_t1_again = empty_task\<lparr>task_id := Some ''t1'', title := Some ''again''\<rparr>"

text \<open>An engine that has a proposal for the task \<open>t3\<close> and fails on every other.\<close>

definition example_propose :: "task \<Rightarrow> string + pyval" where
  "example_propose t =
     (if task_id t = Some ''t3'' then Inr (PDict [(''run_at'', PStr ''1970-01-01T01:00:00'')])
      else Inl ''engine unavailable'')"

text \<open>A scheduler library for the examples: a trigger is the list of its five fields, the
  job store an association list from job ids to the function's name and the trigger.\<close>

definition example_trigger ::
  "string \<Rightarrow> string \<Rightarrow> string \<Rightarrow> string \<Rightarrow> string \<Rightarrow> error + string list" where
  "example_trigger minute hour day month dow = Inr [minute, hour, day, month, dow]"

definition example_add_job ::
  "string \<Rightarrow> string list \<Rightarrow> string option \<Rightarrow> unit \<Rightarrow>
   (string \<times> string \<times> string list) list \<Rightarrow> (string \<times> string \<times> string list) list" where
  "example_add_job func trigger job_id kwargs jobs =
     AList.update (case job_id of None \<Rightarrow> ''generated'' | Some j \<Rightarrow> j) (func, trigger) jobs"

section \<open>Properties\<close>

subsection \<open>Walking over the registry\<close>

lemma map_of_map_values:
  "map_of (map (\<lambda>(k, t). (k, f t)) tasks) k = map_option f (map_of tasks k)"
  by (induction tasks) auto

lemma for_each_task_Cons_Inl:
  "body t = Inl e \<Longrightarrow> for_each_task body ((k, t) # rest) = (Inl e, (k, t) # rest)"
  by simp

lemma for_each_task_Cons_Inr:
  "body t = Inr t' \<Longrightarrow>
   for_each_task body ((k, t) # rest) =
     (fst (for_each_task body rest), (k, t') # snd (for_each_task body rest))"
  by (simp add: case_prod_unfold)

lemma for_each_task_unchanged:
  assumes "\<And>t'. body t = Inr t' \<Longrightarrow> t' = t" and "map_of tasks k = Some t"
  shows "map_of (snd (for_each_task body tasks)) k = Some t"
  using assms(2)
proof (induction tasks)
  case Nil
  then show ?case by simp
next
  case (Cons a tasks)
  obtain k' t0 where a: "a = (k', t0)" by (cases a)
  show ?case
  proof (cases "body t0")
    case (Inl e)
    then show ?thesis using Cons.prems a by simp
  next
    case (Inr t0')
    show ?thesis
    proof (cases "k' = k")
      case True
      with Cons.prems a have "t0 = t" by simp
      with Inr assms(1) have "t0' = t" by blast
      with Inr a True show ?thesis by (simp add: for_each_task_Cons_Inr del: for_each_task.simps)
    next
      case False
      with Cons.prems a have "map_of tasks k = Some t" by simp
      from Cons.IH [OF this] Inr a False show ?thesis by (simp add: for_each_task_Cons_Inr del: for_each_task.simps)
    qed
  qed
qed

lemma for_each_task_returns:
  assumes "fst (for_each_task body tasks) = Inr ()" and "map_of tasks k = Some t"
  shows "\<exists>t'. body t = Inr t' \<and> map_of (snd (for_each_task body tasks)) k = Some t'"
  using assms
proof (induction tasks)
  case Nil
  then show ?case by simp
next
  case (Cons a tasks)
  obtain k' t0 where a: "a = (k', t0)" by (cases a)
  from Cons.prems(1) a obtain t0' where b: "body t0 = Inr t0'"
    by (cases "body t0") auto
  with Cons.prems(1) a have r: "fst (for_each_task body tasks) = Inr ()"
    by (simp add: for_each_task_Cons_Inr del: for_each_task.simps)
  show ?case
  proof (cases "k' = k")
    case True
    with Cons.prems(2) a have "t0 = t" by simp
    with a b True show ?thesis by (simp add: for_each_task_Cons_Inr del: for_each_task.simps)
  next
    case False
    with Cons.prems(2) a have "map_of tasks k = Some t" by simp
    from Cons.IH [OF r this] a b False show ?thesis by (simp add: for_each_task_Cons_Inr del: for_each_task.simps)
  qed
qed

lemma for_each_task_returns_iff:
  "fst (for_each_task body tasks) = Inr () \<longleftrightarrow> (\<forall>(k, t) \<in> set tasks. \<exists>t'. body t = Inr t')"
proof (induction tasks)
  case Nil
  then show ?case by simp
next
  case (Cons a tasks)
  obtain k' t0 where a: "a = (k', t0)" by (cases a)
  show ?case
  proof (cases "body t0")
    case (Inl e)
    then show ?thesis using a by (simp add: for_each_task_Cons_Inl del: for_each_task.simps)
  next
    case (Inr t0')
    then show ?thesis using a Cons.IH
      by (simp add: for_each_task_Cons_Inr del: for_each_task.simps)
  qed
qed

lemma for_each_task_result:
  assumes "fst (for_each_task body tasks) = Inr ()" and "(k, t') \<in> set (snd (for_each_task body tasks))"
  shows "\<exists>t. (k, t) \<in> set tasks \<and> body t = Inr t'"
  using assms
proof (induction tasks)
  case Nil
  then show ?case by simp
next
  case (Cons a tasks)
  obtain k' t0 where a: "a = (k', t0)" by (cases a)
  from Cons.prems(1) a obtain t0' where b: "body t0 = Inr t0'"
    by (cases "body t0") auto
  from Cons.prems(1) a b have r: "fst (for_each_task body tasks) = Inr ()"
    by (simp add: for_each_task_Cons_Inr del: for_each_task.simps)
  from Cons.prems(2) a b have "(k, t') = (k', t0') \<or> (k, t') \<in> set (snd (for_each_task body tasks))"
    by (simp add: for_each_task_Cons_Inr del: for_each_task.simps)
  then show ?case
  proof
    assume "(k, t') = (k', t0')"
    with a b show ?thesis by auto
  next
    assume "(k, t') \<in> set (snd (for_each_task body tasks))"
    from Cons.IH [OF r this] show ?thesis by auto
  qed
qed

lemma for_each_task_registered:
  assumes "registered tasks" and "\<And>t t'. body t = Inr t' \<Longrightarrow> task_id t' = task_id t"
  shows "registered (snd (for_each_task body tasks))"
  using assms(1)
proof (induction tasks)
  case Nil
  then show ?case by (simp add: registered_def)
next
  case (Cons a tasks)
  obtain k' t0 where a: "a = (k', t0)" by (cases a)
  from Cons.prems a have r: "registered tasks" and i: "task_id t0 = Some k'"
    by (simp_all add: registered_def)
  show ?case
  proof (cases "body t0")
    case (Inl e)
    then show ?thesis using Cons.prems a by simp
  next
    case (Inr t0')
    with assms(2) i have "task_id t0' = Some k'" by simp
    with Cons.IH [OF r] Inr a show ?thesis
      by (simp add: registered_def for_each_task_Cons_Inr del: for_each_task.simps)
  qed
qed

lemma get_put_metadata_same: "get_metadata (put_metadata k v t) k = Some v"
  by (simp add: get_metadata_def put_metadata_def update_conv')


lemma get_put_metadata_other: "k' \<noteq> k \<Longrightarrow> get_metadata (put_metadata k v t) k' = get_metadata t k'"
  by (cases "metadata t") (simp_all add: get_metadata_def put_metadata_def update_conv')

lemma priority_put_metadata: "priority (put_metadata k v t) = priority t"
  by (simp add: put_metadata_def)

subsection \<open>The example tasks, field by field\<close>


lemma task_t2_fields:
  "status task_t2 = Some ''pending''" "deadline task_t2 = Some (DDatetime (Naive 9000000000))"
  "priority task_t2 = Some 3" "metadata task_t2 = Some []"
  by (simp_all add: task_t2_def new_task_def)

lemma task_t3_fields:
  "status task_t3 = Some ''pending''" "deadline task_t3 = None"
  "priority task_t3 = Some 3" "metadata task_t3 = Some []" "task_id task_t3 = Some ''t3''"
  by (simp_all add: task_t3_def new_task_def empty_task_def)

lemma task_t4_fields:
  "status task_t4 = Some ''done''" "deadline task_t4 = Some (DDatetime (Naive 3600000000))"
  "priority task_t4 = Some 3" "metadata task_t4 = Some [(''ai_suggestions_error'', PStr ''old'')]"
  by (simp_all add: task_t4_def new_task_def)

lemma task_t5_fields:
  "status task_t5 = Some ''pending''" "deadline task_t5 = Some (DStr ''yesterday'')"
  "priority task_t5 = Some 3" "metadata task_t5 = Some []"
  by (simp_all add: task_t5_def new_task_def)

lemma task_t6_fields:
  "status task_t6 = Some ''pending''" "deadline task_t6 = Some (DStr ''1970-01-01T01:00:00+00:00'')"
  "priority task_t6 = Some 3"
  by (simp_all add: task_t6_def new_task_def)

lemma task_t7_fields:
  "status task_t7 = Some ''pending''" "deadline task_t7 = Some (DStr ''1970-01-01T02:30:00'')"
  "priority task_t7 = Some 3"
  by (simp_all add: task_t7_def new_task_def)

lemma task_t8_fields:
  "status task_t8 = Some ''pending''" "deadline task_t8 = Some (DStr ''1970-01-01T01:00:00'')"
  "priority task_t8 = Some 3"
  by (simp_all add: task_t8_def new_task_def)

lemma task_t9_fields:
  "status task_t9 = Some ''pending''" "deadline task_t9 = None" "priority task_t9 = Some 9"
  by (simp_all add: task_t9_def new_task_def empty_task_def)

lemma task_t10_fields:
  "status task_t10 = Some ''pending''" "deadline task_t10 = Some (DDatetime (Naive 10800000000))"
  "priority task_t10 = Some 3"
  by (simp_all add: task_t10_def new_task_def)

lemma task_t11_fields:
  "status task_t11 = Some ''pending''" "deadline task_t11 = Some (DDatetime (Naive 93600000000))"
  "priority task_t11 = Some 3"
  by (simp_all add: task_t11_def new_task_def)

lemma task_t1_id: "task_id task_t1 = Some ''t1''"
  by (simp add: task_t1_def new_task_def empty_task_def)

lemma task_t1_again_fields:
  "task_id task_t1_again = Some ''t1''" "priority task_t1_again = None"
  "status task_t1_again = None" "tags task_t1_again = None" "metadata task_t1_again = None"
  "deadline task_t1_again = None"
  by (simp_all add: task_t1_again_def empty_task_def)

lemma example_lib_fields:
  "fromisoformat example_lib ''yesterday'' = None"
  "fromisoformat example_lib ''1970-01-01T01:00:00'' = Some (Naive 3600000000)"
  "fromisoformat example_lib ''1970-01-01T02:30:00'' = Some (Naive 9000000000)"
  "fromisoformat example_lib ''1970-01-01T01:00:00+00:00'' = Some (Aware 3600000000)"
  "isoformat example_lib 7200000000 = ''1970-01-01T02:00:00''"
  by (simp_all add: example_lib_def)

subsection \<open>Deadline sweep\<close>


lemma check_deadline_task_untouched:
  assumes "deadline t = None \<or> status t = Some ''done'' \<or> status t = Some ''overdue''"
    and "check_deadline_task lib now t = Inr t'"
  shows "t' = t"
  using assms
  by (auto simp: check_deadline_task_def truthy_deadline_def mark_overdue_def
           split: if_splits option.splits deadline_value.splits sum.splits)

lemma check_deadline_task_raises_iff:
  "(\<exists>e. check_deadline_task lib now t = Inl e) \<longleftrightarrow>
     status t \<noteq> Some ''done'' \<and>
     ((\<exists>i. deadline t = Some (DDatetime (Aware i))) \<or>
      (\<exists>s i. s \<noteq> [] \<and> deadline t = Some (DStr s) \<and> fromisoformat lib s = Some (Aware i)))"
  by (auto simp: check_deadline_task_def truthy_deadline_def mark_overdue_def datetime_less_def
           split: option.splits deadline_value.splits datetime.splits)

text \<open>The sweep returns exactly when no task that is not \<open>done\<close> has an aware
  deadline, be it a \<^verbatim>\<open>datetime\<close> or a text with an offset.\<close>

lemma check_deadlines_returns_iff:
  "fst (check_deadlines lib now tasks) = Inr () \<longleftrightarrow>
     (\<forall>(k, t) \<in> set tasks.
        \<not> (status t \<noteq> Some ''done'' \<and>
           ((\<exists>i. deadline t = Some (DDatetime (Aware i))) \<or>
            (\<exists>s i. s \<noteq> [] \<and> deadline t = Some (DStr s) \<and> fromisoformat lib s = Some (Aware i)))))"
proof -
  have "\<And>t. (\<exists>t'. check_deadline_task lib now t = Inr t') \<longleftrightarrow> \<not> (\<exists>e. check_deadline_task lib now t = Inl e)"
    by (metis sum.exhaust sum.distinct(1))
  then show ?thesis
    unfolding check_deadlines_def for_each_task_returns_iff check_deadline_task_raises_iff
    by simp
qed




text \<open>
  \<^bold>\<open>C10.\<close> A task of the registry whose deadline is a text that \<^verbatim>\<open>fromisoformat\<close> cannot
  read is passed over by \<^verbatim>\<open>_check_deadlines\<close>: its iteration raises nothing and
  returns the task as it is, and after the sweep the task under that key is the task as
  it was, whatever \<open>now\<close> is and whatever happens at the other tasks.
\<close>

theorem check_deadlines_skips_unparsable:
  assumes "map_of tasks k = Some t" and "deadline t = Some (DStr s)"
    and "fromisoformat lib s = None"
  shows "check_deadline_task lib now t = Inr t \<and>
         map_of (snd (check_deadlines lib now tasks)) k = Some t"
proof -
  have b: "check_deadline_task lib now t = Inr t"
    using assms(2,3) by (simp add: check_deadline_task_def)
  then have "map_of (snd (for_each_task (check_deadline_task lib now) tasks)) k = Some t"
    by (intro for_each_task_unchanged [OF _ assms(1)]) simp
  with b show ?thesis by (simp add: check_deadlines_def)
qed

theorem check_deadlines_skips_unparsable_witness:
  "map_of [(''t6'', task_t6), (''t5'', task_t5)] ''t5'' = Some task_t5 \<and>
   deadline task_t5 = Some (DStr ''yesterday'') \<and>
   fromisoformat example_lib ''yesterday'' = None \<and>
   check_deadline_task example_lib example_now task_t5 = Inr task_t5 \<and>
   map_of (snd (check_deadlines example_lib example_now [(''t6'', task_t6), (''t5'', task_t5)])) ''t5''
     = Some task_t5"
proof -
  have a: "map_of [(''t6'', task_t6), (''t5'', task_t5)] ''t5'' = Some task_t5" by simp
  show ?thesis
    using a check_deadlines_skips_unparsable [OF a task_t5_fields(2) example_lib_fields(1), of example_now]
    by (simp add: task_t5_fields example_lib_fields)
qed

subsection \<open>Priority recalculation\<close>

lemma urgency_bump_Naive:
  "urgency_bump now (Some (Naive d)) =
     Inr (if d \<le> now then - 2 else if d - now < 3600 * 1000000 then - 1
          else if d - now < 24 * 3600 * 1000000 then 0 else 1)"
  by (simp add: urgency_bump_def datetime_minus_def total_seconds_def Let_def)

lemma urgency_bump_Aware:
  "urgency_bump now (Some (Aware i)) =
     Inl (TypeError ''can't subtract offset-naive and offset-aware datetimes'')"
  by (simp add: urgency_bump_def datetime_minus_def)

lemma parsed_deadline_Naive:
  assumes "deadline t = Some (DDatetime (Naive d)) \<or>
           (\<exists>s. deadline t = Some (DStr s) \<and> fromisoformat lib s = Some (Naive d))"
  shows "parsed_deadline lib t = Some (Naive d)"
  using assms by (auto simp: parsed_deadline_def)

lemma recalculate_priority_task_deadline:
  assumes "status t \<noteq> Some ''done''"
    and "deadline t = Some (DDatetime (Naive d)) \<or>
         (\<exists>s. deadline t = Some (DStr s) \<and> fromisoformat lib s = Some (Naive d))"
  shows "recalculate_priority_task lib now t =
           Inr (t\<lparr>priority := Some (max 1 (min 5 ((case priority t of None \<Rightarrow> 3 | Some p \<Rightarrow> p) +
             (if d \<le> now then - 2
              else if d - now < 3600 * 1000000 then - 1
              else if d - now < 24 * 3600 * 1000000 then 0
              else 1))))\<rparr>)"
  unfolding recalculate_priority_task_def Let_def parsed_deadline_Naive [OF assms(2)] urgency_bump_Naive
  using assms(1) by (simp only: if_False sum.case)

lemma recalculate_priority_task_no_deadline:
  assumes "status t \<noteq> Some ''done''" and "deadline t = None"
  shows "recalculate_priority_task lib now t =
           Inr (t\<lparr>priority := Some (max 1 (min 5 (case priority t of None \<Rightarrow> 3 | Some p \<Rightarrow> p)))\<rparr>)"
  using assms
  by (simp add: recalculate_priority_task_def Let_def parsed_deadline_def urgency_bump_def)

lemma recalculate_priority_task_raises_iff:
  "(\<exists>e. recalculate_priority_task lib now t = Inl e) \<longleftrightarrow>
     status t \<noteq> Some ''done'' \<and>
     ((\<exists>i. deadline t = Some (DDatetime (Aware i))) \<or>
      (\<exists>s i. deadline t = Some (DStr s) \<and> fromisoformat lib s = Some (Aware i)))"
  by (auto simp: recalculate_priority_task_def Let_def parsed_deadline_def urgency_bump_def
        datetime_minus_def split: option.splits deadline_value.splits datetime.splits)

lemma recalculate_priorities_returns_iff:
  "fst (recalculate_priorities lib now tasks) = Inr () \<longleftrightarrow>
     (\<forall>(k, t) \<in> set tasks.
        \<not> (status t \<noteq> Some ''done'' \<and>
           ((\<exists>i. deadline t = Some (DDatetime (Aware i))) \<or>
            (\<exists>s i. deadline t = Some (DStr s) \<and> fromisoformat lib s = Some (Aware i)))))"
proof -
  have "\<And>t. (\<exists>t'. recalculate_priority_task lib now t = Inr t') \<longleftrightarrow>
              \<not> (\<exists>e. recalculate_priority_task lib now t = Inl e)"
    by (metis sum.exhaust sum.distinct(1))
  then show ?thesis
    unfolding recalculate_priorities_def for_each_task_returns_iff recalculate_priority_task_raises_iff
    by simp
qed

lemma task_t6_raises:
  "recalculate_priority_task example_lib example_now task_t6 =
     Inl (TypeError ''can't subtract offset-naive and offset-aware datetimes'')"
  by (simp add: recalculate_priority_task_def parsed_deadline_def urgency_bump_Aware
        task_t6_fields example_lib_fields)

text \<open>
  \<^bold>\<open>C2\<close>, as stated, gives \<open>-1\<close> within one hour, \<open>0\<close> within 24 hours and \<open>+1\<close> beyond
  24 hours, for every task with a deadline. The code tests \<^verbatim>\<open>delta < 3600\<close> and
  \<^verbatim>\<open>delta < 24 * 3600\<close>: a deadline exactly one hour ahead gets \<open>0\<close> (priority 3 stays
  3) and one exactly 24 hours ahead gets \<open>+1\<close> (priority 3 becomes 4). And the
  subtraction \<^verbatim>\<open>deadline - now\<close> is outside the \<^verbatim>\<open>try\<close>: after the task \<open>t6\<close> with
  its aware deadline the job has stopped, and the task \<open>t2\<close>, priority 3 and thirty
  minutes to go, still has priority 3.
\<close>

theorem recalculate_priorities_deadline_counterexample:
  "priority task_t10 = Some 3 \<and> deadline task_t10 = Some (DDatetime (Naive (example_now + 3600 * 1000000))) \<and>
   map_option priority
     (map_of (snd (recalculate_priorities example_lib example_now [(''t10'', task_t10)])) ''t10'')
     = Some (Some 3) \<and>
   priority task_t11 = Some 3 \<and>
   deadline task_t11 = Some (DDatetime (Naive (example_now + 24 * 3600 * 1000000))) \<and>
   map_option priority
     (map_of (snd (recalculate_priorities example_lib example_now [(''t11'', task_t11)])) ''t11'')
     = Some (Some 4) \<and>
   priority task_t2 = Some 3 \<and>
   deadline task_t2 = Some (DDatetime (Naive (example_now + 30 * 60 * 1000000))) \<and>
   fst (recalculate_priorities example_lib example_now [(''t6'', task_t6), (''t2'', task_t2)]) =
     Inl (TypeError ''can't subtract offset-naive and offset-aware datetimes'') \<and>
   map_option priority
     (map_of (snd (recalculate_priorities example_lib example_now
        [(''t6'', task_t6), (''t2'', task_t2)])) ''t2'')
     = Some (Some 3)"
proof -
  have a: "recalculate_priority_task example_lib example_now task_t10 = Inr (task_t10\<lparr>priority := Some 3\<rparr>)"
    by (simp add: recalculate_priority_task_def parsed_deadline_def urgency_bump_Naive
        task_t10_fields example_now_def)
  have b: "recalculate_priority_task example_lib example_now task_t11 = Inr (task_t11\<lparr>priority := Some 4\<rparr>)"
    by (simp add: recalculate_priority_task_def parsed_deadline_def urgency_bump_Naive
        task_t11_fields example_now_def)
  have d: "deadline task_t10 = Some (DDatetime (Naive (example_now + 3600 * 1000000)))"
    "deadline task_t11 = Some (DDatetime (Naive (example_now + 24 * 3600 * 1000000)))"
    "deadline task_t2 = Some (DDatetime (Naive (example_now + 30 * 60 * 1000000)))"
    by (simp_all add: task_t10_fields task_t11_fields task_t2_fields example_now_def)
  show ?thesis
    by (simp add: recalculate_priorities_def a b d task_t6_raises for_each_task_Cons_Inl
          for_each_task_Cons_Inr task_t10_fields(3) task_t11_fields(3) task_t2_fields(3)
          del: for_each_task.simps)
qed

text \<open>
  \<^bold>\<open>C2, amended.\<close> For a task of the registry that is not \<open>done\<close> and whose deadline
  is the naive instant \<open>d\<close>, as a \<^verbatim>\<open>datetime\<close> or as a text that \<^verbatim>\<open>fromisoformat\<close>
  reads, a run of \<^verbatim>\<open>_recalculate_priorities\<close> that returns without raising changes
  the priority and nothing else: the new priority is \<open>max 1 (min 5 (base + adjustment))\<close>,
  where \<open>base\<close> is the priority field (3 when the key is missing) and the adjustment is
  \<open>-2\<close> when \<open>d \<le> now\<close>, \<open>-1\<close> when \<open>d\<close> is less than one hour after \<open>now\<close>, \<open>0\<close>
  when it is at least one hour and less than 24 hours after \<open>now\<close>, and \<open>1\<close> from 24
  hours on (instants in microseconds).
\<close>

theorem recalculate_priorities_deadline:
  assumes "map_of tasks k = Some t" and "status t \<noteq> Some ''done''"
    and "deadline t = Some (DDatetime (Naive d)) \<or>
         (\<exists>s. deadline t = Some (DStr s) \<and> fromisoformat lib s = Some (Naive d))"
    and "fst (recalculate_priorities lib now tasks) = Inr ()"
  shows "map_of (snd (recalculate_priorities lib now tasks)) k =
           Some (t\<lparr>priority := Some (max 1 (min 5 ((case priority t of None \<Rightarrow> 3 | Some p \<Rightarrow> p) +
             (if d \<le> now then - 2
              else if d - now < 3600 * 1000000 then - 1
              else if d - now < 24 * 3600 * 1000000 then 0
              else 1))))\<rparr>)"
proof -
  from assms(4) have "fst (for_each_task (recalculate_priority_task lib now) tasks) = Inr ()"
    by (simp add: recalculate_priorities_def)
  from for_each_task_returns [OF this assms(1)]
  obtain t' where "recalculate_priority_task lib now t = Inr t'"
    and "map_of (snd (recalculate_priorities lib now tasks)) k = Some t'"
    by (auto simp: recalculate_priorities_def)
  then show ?thesis
    by (simp only: recalculate_priority_task_deadline [OF assms(2,3)] sum.inject)
qed

text \<open>The scenario of the design document: priority 3 and a deadline thirty minutes
  ahead give priority 2, for the deadline as text and as \<^verbatim>\<open>datetime\<close>.\<close>

theorem recalculate_priorities_deadline_witness:
  "map_of [(''t7'', task_t7), (''t2'', task_t2)] ''t7'' = Some task_t7 \<and>
   status task_t7 \<noteq> Some ''done'' \<and> priority task_t7 = Some 3 \<and>
   deadline task_t7 = Some (DStr ''1970-01-01T02:30:00'') \<and>
   fromisoformat example_lib ''1970-01-01T02:30:00'' = Some (Naive (example_now + 30 * 60 * 1000000)) \<and>
   fst (recalculate_priorities example_lib example_now [(''t7'', task_t7), (''t2'', task_t2)]) = Inr () \<and>
   map_of (snd (recalculate_priorities example_lib example_now [(''t7'', task_t7), (''t2'', task_t2)])) ''t7'' =
     Some (task_t7\<lparr>priority := Some 2\<rparr>) \<and>
   map_of [(''t7'', task_t7), (''t2'', task_t2)] ''t2'' = Some task_t2 \<and>
   status task_t2 \<noteq> Some ''done'' \<and> priority task_t2 = Some 3 \<and>
   deadline task_t2 = Some (DDatetime (Naive (example_now + 30 * 60 * 1000000))) \<and>
   map_of (snd (recalculate_priorities example_lib example_now [(''t7'', task_t7), (''t2'', task_t2)])) ''t2'' =
     Some (task_t2\<lparr>priority := Some 2\<rparr>)"
proof -
  let ?tasks = "[(''t7'', task_t7), (''t2'', task_t2)]"
  have a: "map_of ?tasks ''t7'' = Some task_t7" by simp
  have a': "map_of ?tasks ''t2'' = Some task_t2" by simp
  have b: "status task_t7 \<noteq> Some ''done''" by (simp add: task_t7_fields)
  have b': "status task_t2 \<noteq> Some ''done''" by (simp add: task_t2_fields)
  have c: "deadline task_t7 = Some (DDatetime (Naive 9000000000)) \<or>
         (\<exists>s. deadline task_t7 = Some (DStr s) \<and> fromisoformat example_lib s = Some (Naive 9000000000))"
    by (simp add: task_t7_fields example_lib_fields)
  have c': "deadline task_t2 = Some (DDatetime (Naive 9000000000)) \<or>
         (\<exists>s. deadline task_t2 = Some (DStr s) \<and> fromisoformat example_lib s = Some (Naive 9000000000))"
    by (simp add: task_t2_fields)
  have r: "fst (recalculate_priorities example_lib example_now ?tasks) = Inr ()"
    unfolding recalculate_priorities_returns_iff
    by (simp add: task_t7_fields task_t2_fields example_lib_fields)
  show ?thesis
    using a a' b b' r recalculate_priorities_deadline [OF a b c r]
      recalculate_priorities_deadline [OF a' b' c' r]
    by (simp add: task_t7_fields task_t2_fields example_lib_fields example_now_def)
qed

text \<open>
  \<^bold>\<open>C3\<close>, as stated, asks for the adjustment \<open>+1\<close> when the deadline is absent. The
  code starts from \<^verbatim>\<open>urgency_bump = 0\<close> and changes it under \<^verbatim>\<open>if deadline:\<close> only:
  the task with priority 3 and no deadline keeps priority 3, it does not get
  \<open>max 1 (min 5 (3 + 1))\<close>. And when the job has stopped at the aware deadline of
  \<open>t6\<close>, the task \<open>t9\<close> after it keeps its priority 9.
\<close>

theorem recalculate_priorities_no_deadline_counterexample:
  "status task_t3 \<noteq> Some ''done'' \<and> deadline task_t3 = None \<and> priority task_t3 = Some 3 \<and>
   map_option priority
     (map_of (snd (recalculate_priorities example_lib example_now [(''t3'', task_t3)])) ''t3'')
     = Some (Some 3) \<and>
   map_option priority
     (map_of (snd (recalculate_priorities example_lib example_now [(''t3'', task_t3)])) ''t3'')
     \<noteq> Some (Some (max 1 (min 5 (3 + 1)))) \<and>
   status task_t9 \<noteq> Some ''done'' \<and> deadline task_t9 = None \<and> priority task_t9 = Some 9 \<and>
   fst (recalculate_priorities example_lib example_now [(''t6'', task_t6), (''t9'', task_t9)]) =
     Inl (TypeError ''can't subtract offset-naive and offset-aware datetimes'') \<and>
   map_option priority
     (map_of (snd (recalculate_priorities example_lib example_now
        [(''t6'', task_t6), (''t9'', task_t9)])) ''t9'')
     = Some (Some 9)"
proof -
  have a: "recalculate_priority_task example_lib example_now task_t3 = Inr (task_t3\<lparr>priority := Some 3\<rparr>)"
    by (simp add: recalculate_priority_task_no_deadline task_t3_fields)
  show ?thesis
    by (simp add: recalculate_priorities_def a task_t6_raises for_each_task_Cons_Inl
          for_each_task_Cons_Inr task_t3_fields task_t9_fields
          del: for_each_task.simps)
qed

text \<open>
  \<^bold>\<open>C3, amended.\<close> For a task of the registry that is not \<open>done\<close> and has no deadline,
  a run of \<^verbatim>\<open>_recalculate_priorities\<close> that returns without raising applies the
  adjustment \<open>0\<close>: the new priority is \<open>max 1 (min 5 base)\<close>, \<open>base\<close> being the
  priority field (3 when the key is missing), and nothing else changes. A task with
  priority 3 and no deadline has priority 3 afterwards.
\<close>

theorem recalculate_priorities_no_deadline:
  assumes "map_of tasks k = Some t" and "status t \<noteq> Some ''done''" and "deadline t = None"
    and "fst (recalculate_priorities lib now tasks) = Inr ()"
  shows "map_of (snd (recalculate_priorities lib now tasks)) k =
           Some (t\<lparr>priority := Some (max 1 (min 5 (case priority t of None \<Rightarrow> 3 | Some p \<Rightarrow> p)))\<rparr>)"
proof -
  from assms(4) have "fst (for_each_task (recalculate_priority_task lib now) tasks) = Inr ()"
    by (simp add: recalculate_priorities_def)
  from for_each_task_returns [OF this assms(1)]
  obtain t' where "recalculate_priority_task lib now t = Inr t'"
    and "map_of (snd (recalculate_priorities lib now tasks)) k = Some t'"
    by (auto simp: recalculate_priorities_def)
  then show ?thesis
    by (simp only: recalculate_priority_task_no_deadline [OF assms(2,3)] sum.inject)
qed

theorem recalculate_priorities_no_deadline_witness:
  "map_of [(''t3'', task_t3), (''t9'', task_t9)] ''t3'' = Some task_t3 \<and>
   status task_t3 \<noteq> Some ''done'' \<and> deadline task_t3 = None \<and> priority task_t3 = Some 3 \<and>
   fst (recalculate_priorities example_lib example_now [(''t3'', task_t3), (''t9'', task_t9)]) = Inr () \<and>
   map_of (snd (recalculate_priorities example_lib example_now [(''t3'', task_t3), (''t9'', task_t9)])) ''t3'' =
     Some (task_t3\<lparr>priority := Some 3\<rparr>) \<and>
   map_of [(''t3'', task_t3), (''t9'', task_t9)] ''t9'' = Some task_t9 \<and>
   status task_t9 \<noteq> Some ''done'' \<and> deadline task_t9 = None \<and> priority task_t9 = Some 9 \<and>
   map_of (snd (recalculate_priorities example_lib example_now [(''t3'', task_t3), (''t9'', task_t9)])) ''t9'' =
     Some (task_t9\<lparr>priority := Some 5\<rparr>)"
proof -
  let ?tasks = "[(''t3'', task_t3), (''t9'', task_t9)]"
  have a: "map_of ?tasks ''t3'' = Some task_t3" by simp
  have a': "map_of ?tasks ''t9'' = Some task_t9" by simp
  have b: "status task_t3 \<noteq> Some ''done''" by (simp add: task_t3_fields)
  have b': "status task_t9 \<noteq> Some ''done''" by (simp add: task_t9_fields)
  have r: "fst (recalculate_priorities example_lib example_now ?tasks) = Inr ()"
    unfolding recalculate_priorities_returns_iff
    by (simp add: task_t3_fields task_t9_fields)
  show ?thesis
    using a a' b b' r recalculate_priorities_no_deadline [OF a b task_t3_fields(2) r]
      recalculate_priorities_no_deadline [OF a' b' task_t9_fields(2) r]
    by (simp add: task_t3_fields task_t9_fields)
qed

lemma urgency_bump_value:
  assumes "urgency_bump now (parsed_deadline lib t) = Inr b"
  shows "b \<in> {- 2, - 1, 0, 1}"
    and "b = 0 \<longleftrightarrow>
           deadline t = None \<or>
           (\<exists>s. deadline t = Some (DStr s) \<and> fromisoformat lib s = None) \<or>
           (\<exists>d. (deadline t = Some (DDatetime (Naive d)) \<or>
                 (\<exists>s. deadline t = Some (DStr s) \<and> fromisoformat lib s = Some (Naive d))) \<and>
                3600 * 1000000 \<le> d - now \<and> d - now < 24 * 3600 * 1000000)"
proof -
  show "b \<in> {- 2, - 1, 0, 1}"
  proof (cases "parsed_deadline lib t")
    case None
    with assms show ?thesis by (simp add: urgency_bump_def)
  next
    case (Some dt)
    with assms show ?thesis
      by (cases dt) (auto simp: urgency_bump_Naive urgency_bump_Aware split: if_splits)
  qed
  show "b = 0 \<longleftrightarrow>
           deadline t = None \<or>
           (\<exists>s. deadline t = Some (DStr s) \<and> fromisoformat lib s = None) \<or>
           (\<exists>d. (deadline t = Some (DDatetime (Naive d)) \<or>
                 (\<exists>s. deadline t = Some (DStr s) \<and> fromisoformat lib s = Some (Naive d))) \<and>
                3600 * 1000000 \<le> d - now \<and> d - now < 24 * 3600 * 1000000)"
  proof (cases "parsed_deadline lib t")
    case None
    with assms have "b = 0" by (simp add: urgency_bump_def)
    moreover from None have "deadline t = None \<or>
           (\<exists>s. deadline t = Some (DStr s) \<and> fromisoformat lib s = None)"
      by (auto simp: parsed_deadline_def split: option.splits deadline_value.splits)
    ultimately show ?thesis by blast
  next
    case (Some dt)
    show ?thesis
    proof (cases dt)
      case (Naive d)
      with Some have p: "parsed_deadline lib t = Some (Naive d)" by simp
      with assms have b: "b = (if d \<le> now then - 2 else if d - now < 3600 * 1000000 then - 1
          else if d - now < 24 * 3600 * 1000000 then 0 else 1)"
        by (simp add: urgency_bump_Naive)
      from p have raw: "deadline t = Some (DDatetime (Naive d)) \<or>
                 (\<exists>s. deadline t = Some (DStr s) \<and> fromisoformat lib s = Some (Naive d))"
        by (auto simp: parsed_deadline_def split: option.splits deadline_value.splits)
      have uniq: "\<And>d'. deadline t = Some (DDatetime (Naive d')) \<or>
                 (\<exists>s. deadline t = Some (DStr s) \<and> fromisoformat lib s = Some (Naive d')) \<Longrightarrow> d' = d"
        using p by (auto simp: parsed_deadline_def split: option.splits deadline_value.splits)
      have no: "deadline t \<noteq> None" "\<not> (\<exists>s. deadline t = Some (DStr s) \<and> fromisoformat lib s = None)"
        using p by (auto simp: parsed_deadline_def split: option.splits deadline_value.splits)
      have "b = 0 \<longleftrightarrow> 3600 * 1000000 \<le> d - now \<and> d - now < 24 * 3600 * 1000000"
        using b by (auto split: if_splits)
      then show ?thesis using raw uniq no by blast
    next
      case (Aware i)
      with Some assms show ?thesis by (simp add: urgency_bump_Aware)
    qed
  qed
qed

lemma recalculate_priority_task_Inr:
  assumes "status t \<noteq> Some ''done''" and "recalculate_priority_task lib now t = Inr t'"
  shows "\<exists>b. urgency_bump now (parsed_deadline lib t) = Inr b \<and>
             t' = t\<lparr>priority := Some (max 1 (min 5 ((case priority t of None \<Rightarrow> 3 | Some p \<Rightarrow> p) + b)))\<rparr>"
  using assms by (auto simp: recalculate_priority_task_def Let_def split: sum.splits)

lemma recalculate_priority_task_keeps:
  assumes "recalculate_priority_task lib now t = Inr t'"
  shows "status t' = status t" and "deadline t' = deadline t" and "task_id t' = task_id t"
  using assms by (auto simp: recalculate_priority_task_def Let_def split: if_splits sum.splits)

lemma recalculate_priorities_again:
  assumes "fst (recalculate_priorities lib now tasks) = Inr ()"
  shows "fst (recalculate_priorities lib now (snd (recalculate_priorities lib now tasks))) = Inr ()"
  unfolding recalculate_priorities_returns_iff
proof (intro ballI, clarify)
  fix k t' 
  assume m: "(k, t') \<in> set (snd (recalculate_priorities lib now tasks))"
    and s: "status t' \<noteq> Some ''done''"
    and a: "(\<exists>i. deadline t' = Some (DDatetime (Aware i))) \<or>
            (\<exists>s i. deadline t' = Some (DStr s) \<and> fromisoformat lib s = Some (Aware i))"
  from assms m obtain t where t: "(k, t) \<in> set tasks" "recalculate_priority_task lib now t = Inr t'"
    using for_each_task_result [of "recalculate_priority_task lib now" tasks k t']
    by (auto simp: recalculate_priorities_def)
  from t(1) assms have "\<not> (status t \<noteq> Some ''done'' \<and>
           ((\<exists>i. deadline t = Some (DDatetime (Aware i))) \<or>
            (\<exists>s i. deadline t = Some (DStr s) \<and> fromisoformat lib s = Some (Aware i))))"
    unfolding recalculate_priorities_returns_iff by blast
  with s a recalculate_priority_task_keeps [OF t(2)] show False by simp
qed

lemma clamp_twice:
  fixes p b :: int
  assumes "1 \<le> p" and "p \<le> 5" and "b \<in> {- 2, - 1, 0, 1}"
  shows "max 1 (min 5 (max 1 (min 5 (p + b)) + b)) = max 1 (min 5 (p + b)) \<longleftrightarrow>
           b = 0 \<or> max 1 (min 5 (p + b)) = 1 \<or> max 1 (min 5 (p + b)) = 5"
  using assms by auto

text \<open>
  \<^bold>\<open>C8\<close>, as stated, says that a second run with the same \<open>now\<close> does not change the
  priority the first run produced. The base of each run is the priority field as the
  run finds it, so the adjustment is applied again: the task with priority 3 and a
  deadline thirty minutes ahead has priority 2 after one run and priority 1 after two,
  both runs returning.
\<close>

theorem recalculate_priorities_twice_counterexample:
  "priority task_t2 = Some 3 \<and>
   fst (recalculate_priorities example_lib example_now [(''t2'', task_t2)]) = Inr () \<and>
   map_option priority
     (map_of (snd (recalculate_priorities example_lib example_now [(''t2'', task_t2)])) ''t2'')
     = Some (Some 2) \<and>
   fst (recalculate_priorities example_lib example_now
          (snd (recalculate_priorities example_lib example_now [(''t2'', task_t2)]))) = Inr () \<and>
   map_option priority
     (map_of (snd (recalculate_priorities example_lib example_now
        (snd (recalculate_priorities example_lib example_now [(''t2'', task_t2)])))) ''t2'')
     = Some (Some 1)"
proof -
  have a: "recalculate_priority_task example_lib example_now task_t2 = Inr (task_t2\<lparr>priority := Some 2\<rparr>)"
    by (simp add: recalculate_priority_task_def parsed_deadline_def urgency_bump_Naive
        task_t2_fields example_now_def)
  have b: "recalculate_priority_task example_lib example_now (task_t2\<lparr>priority := Some 2\<rparr>)
             = Inr (task_t2\<lparr>priority := Some 1\<rparr>)"
    by (simp add: recalculate_priority_task_def parsed_deadline_def urgency_bump_Naive
        task_t2_fields example_now_def)
  show ?thesis
    by (simp add: recalculate_priorities_def a b for_each_task_Cons_Inr task_t2_fields(3)
          del: for_each_task.simps(2))
qed

text \<open>
  \<^bold>\<open>C8, amended.\<close> Take a task of the registry with a priority \<open>p\<close> in \<open>1..5\<close>, and let
  a first run of \<^verbatim>\<open>_recalculate_priorities\<close> return without raising. Then a second
  run with the same \<open>now\<close> returns too, and with \<open>p1\<close> and \<open>p2\<close> the priorities after
  the first and the second run, \<open>p2 = p1\<close> exactly when the task is \<open>done\<close>, or its
  adjustment is \<open>0\<close> (no deadline, a text that does not parse, or a naive deadline at
  least one hour and less than 24 hours after \<open>now\<close>), or the first run has left the
  priority at \<open>1\<close> or at \<open>5\<close>.
\<close>

theorem recalculate_priorities_twice:
  assumes "map_of tasks k = Some t" and "priority t = Some p" and "1 \<le> p" and "p \<le> 5"
    and "fst (recalculate_priorities lib now tasks) = Inr ()"
  shows "\<exists>p1 p2.
           map_option priority (map_of (snd (recalculate_priorities lib now tasks)) k)
             = Some (Some p1) \<and>
           fst (recalculate_priorities lib now (snd (recalculate_priorities lib now tasks))) = Inr () \<and>
           map_option priority
             (map_of (snd (recalculate_priorities lib now
                (snd (recalculate_priorities lib now tasks)))) k)
             = Some (Some p2) \<and>
           (p2 = p1 \<longleftrightarrow>
              status t = Some ''done'' \<or>
              deadline t = None \<or>
              (\<exists>s. deadline t = Some (DStr s) \<and> fromisoformat lib s = None) \<or>
              (\<exists>d. (deadline t = Some (DDatetime (Naive d)) \<or>
                    (\<exists>s. deadline t = Some (DStr s) \<and> fromisoformat lib s = Some (Naive d))) \<and>
                   3600 * 1000000 \<le> d - now \<and> d - now < 24 * 3600 * 1000000) \<or>
              p1 = 1 \<or> p1 = 5)"
proof -
  let ?once = "snd (recalculate_priorities lib now tasks)"
  let ?twice = "snd (recalculate_priorities lib now ?once)"
  have r2: "fst (recalculate_priorities lib now ?once) = Inr ()"
    by (rule recalculate_priorities_again [OF assms(5)])
  from assms(5) have "fst (for_each_task (recalculate_priority_task lib now) tasks) = Inr ()"
    by (simp add: recalculate_priorities_def)
  from for_each_task_returns [OF this assms(1)]
  obtain t1 where t1: "recalculate_priority_task lib now t = Inr t1" "map_of ?once k = Some t1"
    by (auto simp: recalculate_priorities_def)
  from r2 have "fst (for_each_task (recalculate_priority_task lib now) ?once) = Inr ()"
    by (simp add: recalculate_priorities_def)
  from for_each_task_returns [OF this t1(2)]
  obtain t2 where t2: "recalculate_priority_task lib now t1 = Inr t2" "map_of ?twice k = Some t2"
    by (auto simp: recalculate_priorities_def)
  show ?thesis
  proof (cases "status t = Some ''done''")
    case True
    with t1(1) have "t1 = t" by (simp add: recalculate_priority_task_def)
    with t2(1) True have "t2 = t" by (simp add: recalculate_priority_task_def)
    with \<open>t1 = t\<close> t1(2) t2(2) r2 assms(2) True show ?thesis by simp
  next
    case False
    from recalculate_priority_task_Inr [OF False t1(1)] assms(2)
    obtain b where b: "urgency_bump now (parsed_deadline lib t) = Inr b"
      and e1: "t1 = t\<lparr>priority := Some (max 1 (min 5 (p + b)))\<rparr>"
      by auto
    let ?p1 = "max 1 (min 5 (p + b))"
    have s1: "status t1 \<noteq> Some ''done''" using False e1 by simp
    have pd: "parsed_deadline lib t1 = parsed_deadline lib t"
      using e1 by (simp add: parsed_deadline_def)
    from recalculate_priority_task_Inr [OF s1 t2(1)] b pd e1
    have e2: "priority t2 = Some (max 1 (min 5 (?p1 + b)))" by auto
    have c: "max 1 (min 5 (?p1 + b)) = ?p1 \<longleftrightarrow> b = 0 \<or> ?p1 = 1 \<or> ?p1 = 5"
      by (rule clamp_twice [OF assms(3,4) urgency_bump_value(1) [OF b]])
    have once: "map_option priority (map_of ?once k) = Some (Some ?p1)"
      using t1(2) e1 by simp
    have twice: "map_option priority (map_of ?twice k) = Some (Some (max 1 (min 5 (?p1 + b))))"
      using t2(2) e2 by simp
    show ?thesis
      using once twice r2 c False urgency_bump_value(2) [OF b] by blast
  qed
qed

text \<open>The task \<open>t8\<close>, priority 3 and a text deadline one hour ago: the first run puts
  it at 1, the second keeps it there.\<close>

theorem recalculate_priorities_twice_witness:
  "map_of [(''t8'', task_t8)] ''t8'' = Some task_t8 \<and> priority task_t8 = Some 3 \<and>
   (1::int) \<le> 3 \<and> (3::int) \<le> 5 \<and>
   fst (recalculate_priorities example_lib example_now [(''t8'', task_t8)]) = Inr () \<and>
   (\<exists>p1 p2.
      map_option priority
        (map_of (snd (recalculate_priorities example_lib example_now [(''t8'', task_t8)])) ''t8'')
        = Some (Some p1) \<and>
      map_option priority
        (map_of (snd (recalculate_priorities example_lib example_now
           (snd (recalculate_priorities example_lib example_now [(''t8'', task_t8)])))) ''t8'')
        = Some (Some p2) \<and>
      p1 = 1 \<and> p2 = p1)"
proof -
  have a: "map_of [(''t8'', task_t8)] ''t8'' = Some task_t8" by simp
  have r: "fst (recalculate_priorities example_lib example_now [(''t8'', task_t8)]) = Inr ()"
    unfolding recalculate_priorities_returns_iff
    by (simp add: task_t8_fields example_lib_fields)
  have b: "recalculate_priority_task example_lib example_now task_t8 = Inr (task_t8\<lparr>priority := Some 1\<rparr>)"
    by (simp add: recalculate_priority_task_def parsed_deadline_def urgency_bump_Naive
        task_t8_fields example_lib_fields example_now_def)
  have c: "map_option priority
        (map_of (snd (recalculate_priorities example_lib example_now [(''t8'', task_t8)])) ''t8'')
        = Some (Some 1)"
    by (simp add: recalculate_priorities_def b for_each_task_Cons_Inr del: for_each_task.simps(2))
  show ?thesis
    using a r c recalculate_priorities_twice [OF a task_t8_fields(3) _ _ r]
    by (auto simp: task_t8_fields)
qed

subsection \<open>Tasks that are done\<close>

text \<open>The deadline sweep, the priority recalculation and the suggestion refresh, when
  the engine answers, pass over a task that is \<open>done\<close>, also in a run that raises at
  another task.\<close>

lemma check_deadlines_done:
  assumes "map_of tasks k = Some t" and "status t = Some ''done''"
  shows "map_of (snd (check_deadlines lib now tasks)) k = Some t"
  unfolding check_deadlines_def
  by (rule for_each_task_unchanged [OF _ assms(1)])
     (rule check_deadline_task_untouched, simp add: assms(2))

lemma recalculate_priorities_done:
  assumes "map_of tasks k = Some t" and "status t = Some ''done''"
  shows "map_of (snd (recalculate_priorities lib now tasks)) k = Some t"
  unfolding recalculate_priorities_def
  by (rule for_each_task_unchanged [OF _ assms(1)])
     (simp add: recalculate_priority_task_def assms(2))

lemma generate_ai_suggestions_success_done:
  assumes "map_of tasks k = Some t" and "status t = Some ''done''"
    and "suggest_next_actions (filter (\<lambda>t. status t \<noteq> Some ''done'') (map snd tasks)) = Inr v"
  shows "map_of (generate_ai_suggestions suggest_next_actions tasks) k = Some t"
  using assms(1,2)
  by (simp add: generate_ai_suggestions_def Let_def assms(3) map_of_map_values)

text \<open>
  \<^bold>\<open>C4.\<close> No housekeeping job may change a task that is \<open>done\<close>. The handler of
  \<^verbatim>\<open>_generate_ai_suggestions\<close> walks over all of \<^verbatim>\<open>self.tasks.values()\<close>, where the
  \<^verbatim>\<open>try\<close> block walks over the tasks that are not done: when the engine fails with
  the text \<open>boom\<close>, the done task \<open>t4\<close>, whose metadata holds
  \<open>ai_suggestions_error = old\<close>, has that key overwritten with \<open>boom\<close>.
\<close>

theorem generate_ai_suggestions_failure_done_task:
  "status task_t4 = Some ''done'' \<and>
   get_metadata task_t4 ''ai_suggestions_error'' = Some (PStr ''old'') \<and>
   map_option (\<lambda>t. get_metadata t ''ai_suggestions_error'')
     (map_of (generate_ai_suggestions (\<lambda>pending. Inl ''boom'') [(''t4'', task_t4)]) ''t4'')
     = Some (Some (PStr ''boom''))"
  by (simp add: generate_ai_suggestions_def get_metadata_def put_metadata_def task_t4_fields)

subsection \<open>Suggestion refresh when the engine fails\<close>

text \<open>
  \<^bold>\<open>C5.\<close> Let \<^verbatim>\<open>suggest_next_actions\<close> raise, with text \<open>e\<close>, on the tasks that are not
  done. Then \<^verbatim>\<open>_generate_ai_suggestions\<close> returns a registry (the handler catches the
  exception and has no raising path of its own) where every task of the old registry is
  still there under its key, every task that is not \<open>done\<close> has
  \<open>ai_suggestions_error = e\<close> in its metadata, and no task's \<open>ai_suggestions\<close> entry
  has changed.
\<close>

theorem generate_ai_suggestions_failure:
  assumes "suggest_next_actions (filter (\<lambda>t. status t \<noteq> Some ''done'') (map snd tasks)) = Inl e"
    and "map_of tasks k = Some t"
  shows "\<exists>t'. map_of (generate_ai_suggestions suggest_next_actions tasks) k = Some t' \<and>
           (status t \<noteq> Some ''done'' \<longrightarrow> get_metadata t' ''ai_suggestions_error'' = Some (PStr e)) \<and>
           get_metadata t' ''ai_suggestions'' = get_metadata t ''ai_suggestions''"
  using assms(2)
  by (simp add: generate_ai_suggestions_def Let_def assms(1) map_of_map_values
        get_put_metadata_same get_put_metadata_other)

theorem generate_ai_suggestions_failure_witness:
  "(\<lambda>pending. Inl ''boom'' :: string + pyval)
      (filter (\<lambda>t. status t \<noteq> Some ''done'') (map snd [(''t3'', task_t3)])) = Inl ''boom'' \<and>
   map_of [(''t3'', task_t3)] ''t3'' = Some task_t3 \<and> status task_t3 \<noteq> Some ''done'' \<and>
   (\<exists>t'. map_of (generate_ai_suggestions (\<lambda>pending. Inl ''boom'') [(''t3'', task_t3)]) ''t3'' = Some t' \<and>
         get_metadata t' ''ai_suggestions_error'' = Some (PStr ''boom'') \<and>
         get_metadata t' ''ai_suggestions'' = None)"
proof -
  have a: "(\<lambda>pending. Inl ''boom'' :: string + pyval)
      (filter (\<lambda>t. status t \<noteq> Some ''done'') (map snd [(''t3'', task_t3)])) = Inl ''boom''" by simp
  have b: "map_of [(''t3'', task_t3)] ''t3'' = Some task_t3" by simp
  have c: "get_metadata task_t3 ''ai_suggestions'' = None"
    by (simp add: get_metadata_def task_t3_fields)
  show ?thesis
    using a b generate_ai_suggestions_failure [OF a b]
    by (simp add: task_t3_fields c)
qed

subsection \<open>The registry\<close>

lemma set_update_subset: "set (AList.update k v al) \<subseteq> insert (k, v) (set al)"
  by (induction al) auto

lemma registered_Nil: "registered []"
  by (simp add: registered_def)

lemma register_task_registered:
  assumes "registered tasks"
  shows "registered (snd (register_task task tasks))"
proof (cases "task_id task")
  case None
  then show ?thesis using assms by (simp add: register_task_def)
next
  case (Some i)
  then show ?thesis
    using assms set_update_subset
    by (fastforce simp: register_task_def Let_def registered_def)
qed

lemma register_task_distinct:
  assumes "distinct (map fst tasks)"
  shows "distinct (map fst (snd (register_task task tasks)))"
  using assms
  by (cases "task_id task") (simp_all add: register_task_def Let_def distinct_update)

lemma remove_task_registered: "registered tasks \<Longrightarrow> registered (remove_task tid tasks)"
  by (auto simp: registered_def remove_task_def AList.delete_eq)

lemma registered_map_values:
  assumes "registered tasks" and "\<And>t. task_id (f t) = task_id t"
  shows "registered (map (\<lambda>(k, t). (k, f t)) tasks)"
  using assms by (auto simp: registered_def)

lemma task_id_put_metadata: "task_id (put_metadata k v t) = task_id t"
  by (simp add: put_metadata_def)

lemma check_deadline_task_keeps_id:
  assumes "check_deadline_task lib now t = Inr t'"
  shows "task_id t' = task_id t"
  using assms
  by (auto simp: check_deadline_task_def mark_overdue_def task_id_put_metadata
           split: if_splits option.splits deadline_value.splits sum.splits)

lemma check_deadlines_registered:
  "registered tasks \<Longrightarrow> registered (snd (check_deadlines lib now tasks))"
  unfolding check_deadlines_def
  by (rule for_each_task_registered) (auto dest: check_deadline_task_keeps_id)

lemma recalculate_priorities_registered:
  "registered tasks \<Longrightarrow> registered (snd (recalculate_priorities lib now tasks))"
  unfolding recalculate_priorities_def
  by (rule for_each_task_registered) (auto dest: recalculate_priority_task_keeps(3))

text \<open>
  \<^bold>\<open>C6.\<close> \<^verbatim>\<open>register_task\<close> raises (a \<^verbatim>\<open>ValueError\<close>, the only error of the model)
  exactly when the task has no \<open>id\<close>, and then the registry is as before. When the task
  has the id \<open>i\<close>, the call returns, and the registry maps \<open>i\<close> to the task given, with
  priority 3, status \<open>pending\<close>, no tags and empty metadata where those keys were
  missing, and every other id to what it held: whatever was stored under \<open>i\<close> before
  is gone.
\<close>

theorem register_task_result:
  "((\<exists>e. fst (register_task task tasks) = Inl e) \<longleftrightarrow> task_id task = None) \<and>
   (task_id task = None \<longrightarrow> snd (register_task task tasks) = tasks) \<and>
   (\<forall>i. task_id task = Some i \<longrightarrow>
      fst (register_task task tasks) = Inr () \<and>
      map_of (snd (register_task task tasks)) =
        (map_of tasks)(i \<mapsto> task\<lparr>
           priority := Some (case priority task of None \<Rightarrow> 3 | Some p \<Rightarrow> p),
           status := Some (case status task of None \<Rightarrow> ''pending'' | Some s \<Rightarrow> s),
           tags := Some (case tags task of None \<Rightarrow> [] | Some g \<Rightarrow> g),
           metadata := Some (case metadata task of None \<Rightarrow> [] | Some m \<Rightarrow> m)\<rparr>))"
  by (cases "task_id task") (simp_all add: register_task_def Let_def update_conv')

text \<open>Registering the empty dictionary fails and keeps the registry; registering a new
  \<open>t1\<close> over the old one, which had a deadline, leaves a task without deadline.\<close>

theorem register_task_result_witness:
  "task_id empty_task = None \<and> (\<exists>e. fst (register_task empty_task [(''t1'', task_t1)]) = Inl e) \<and>
   snd (register_task empty_task [(''t1'', task_t1)]) = [(''t1'', task_t1)] \<and>
   task_id task_t1_again = Some ''t1'' \<and>
   fst (register_task task_t1_again [(''t1'', task_t1)]) = Inr () \<and>
   map_of (snd (register_task task_t1_again [(''t1'', task_t1)])) ''t1'' =
     Some (task_t1_again\<lparr>priority := Some 3, status := Some ''pending'', tags := Some [],
             metadata := Some []\<rparr>) \<and>
   map_option deadline (map_of (snd (register_task task_t1_again [(''t1'', task_t1)])) ''t1'') = Some None"
proof -
  have a: "task_id empty_task = None" by (simp add: empty_task_def)
  show ?thesis
    using a register_task_result [of empty_task "[(''t1'', task_t1)]"]
      register_task_result [of task_t1_again "[(''t1'', task_t1)]"]
    by (simp add: task_t1_again_fields)
qed

subsection \<open>Cron expressions\<close>

lemma split_from_fields:
  assumes "\<forall>c \<in> set w. \<not> isspace c" and "f \<in> set (split_from w s)"
  shows "f \<noteq> [] \<and> (\<forall>c \<in> set f. \<not> isspace c)"
  using assms
proof (induction s arbitrary: w)
  case Nil
  then show ?case by (auto split: if_splits)
next
  case (Cons a s)
  show ?case
  proof (cases "isspace a")
    case True
    have e: "\<forall>c \<in> set ([]::string). \<not> isspace c" by simp
    from Cons.prems True have "f = w \<and> w \<noteq> [] \<or> f \<in> set (split_from [] s)"
      by (auto split: if_splits)
    then show ?thesis
      using Cons.IH [OF e] Cons.prems(1) by blast
  next
    case False
    with Cons.prems have w: "\<forall>c \<in> set (w @ [a]). \<not> isspace c"
      and "f \<in> set (split_from (w @ [a]) s)"
      by auto
    then show ?thesis using Cons.IH by blast
  qed
qed

text \<open>The fields of \<^verbatim>\<open>cron.split()\<close> are not empty and hold no whitespace.\<close>

lemma str_split_fields: "f \<in> set (str_split s) \<Longrightarrow> f \<noteq> [] \<and> (\<forall>c \<in> set f. \<not> isspace c)"
  unfolding str_split_def by (rule split_from_fields) simp_all

lemma length_5: "length xs = 5 \<Longrightarrow> \<exists>a b c d e. xs = [a, b, c, d, e]"
  by (auto simp: length_Suc_conv eval_nat_numeral)

lemma str_split_3_fields: "str_split ''* * *'' = [''*'', ''*'', ''*'']"
  by (simp add: str_split_def isspace_def)

lemma str_split_5_fields: "str_split ''0 9 * * 1-5'' = [''0'', ''9'', ''*'', ''*'', ''1-5'']"
  by (simp add: str_split_def isspace_def)

text \<open>
  \<^bold>\<open>C7.\<close> When \<^verbatim>\<open>cron.split()\<close> does not give exactly five fields, \<^verbatim>\<open>schedule_cron\<close>
  raises the \<^verbatim>\<open>ValueError\<close> of the field-count check at once and the job store is as
  before (\<^verbatim>\<open>add_job\<close> is not reached). When it gives five fields, the check raises
  nothing: the outcome is that of building the trigger from the five fields and, if
  that succeeds, of adding the job.
\<close>

theorem schedule_cron_field_count:
  "(length (str_split cron) \<noteq> 5 \<longrightarrow>
      schedule_cron CronTrigger add_job func cron job_id kwargs jobs =
        (Inl (ValueError ''Cron expression must have 5 fields: m h dom mon dow''), jobs)) \<and>
   (length (str_split cron) = 5 \<longrightarrow>
      (\<exists>minute hour day month dow. str_split cron = [minute, hour, day, month, dow] \<and>
         schedule_cron CronTrigger add_job func cron job_id kwargs jobs =
           (case CronTrigger minute hour day month dow of
              Inl e \<Rightarrow> (Inl e, jobs)
            | Inr trigger \<Rightarrow> (Inr (), add_job func trigger job_id kwargs jobs))))"
proof (intro conjI impI)
  assume "length (str_split cron) \<noteq> 5"
  then show "schedule_cron CronTrigger add_job func cron job_id kwargs jobs =
        (Inl (ValueError ''Cron expression must have 5 fields: m h dom mon dow''), jobs)"
    by (simp add: schedule_cron_def Let_def)
next
  assume "length (str_split cron) = 5"
  then obtain a b c d e where f: "str_split cron = [a, b, c, d, e]"
    using length_5 by blast
  then show "\<exists>minute hour day month dow. str_split cron = [minute, hour, day, month, dow] \<and>
         schedule_cron CronTrigger add_job func cron job_id kwargs jobs =
           (case CronTrigger minute hour day month dow of
              Inl e \<Rightarrow> (Inl e, jobs)
            | Inr trigger \<Rightarrow> (Inr (), add_job func trigger job_id kwargs jobs))"
    by (simp add: schedule_cron_def Let_def)
qed

text \<open>The three fields of \<^verbatim>\<open>"* * *"\<close> are refused and the store stays empty; the five
  fields of \<^verbatim>\<open>"0 9 * * 1-5"\<close> go through.\<close>

theorem schedule_cron_field_count_witness:
  "length (str_split ''* * *'') \<noteq> 5 \<and>
   schedule_cron example_trigger example_add_job ''job'' ''* * *'' (Some ''j1'') () [] =
     (Inl (ValueError ''Cron expression must have 5 fields: m h dom mon dow''), []) \<and>
   length (str_split ''0 9 * * 1-5'') = 5 \<and>
   schedule_cron example_trigger example_add_job ''job'' ''0 9 * * 1-5'' (Some ''j1'') () [] =
     (Inr (), [(''j1'', ''job'', [''0'', ''9'', ''*'', ''*'', ''1-5''])])"
  using schedule_cron_field_count [of "''* * *''" example_trigger example_add_job "''job''" "Some ''j1''" "()" "[]"]
    schedule_cron_field_count [of "''0 9 * * 1-5''" example_trigger example_add_job "''job''" "Some ''j1''" "()" "[]"]
  by (simp add: str_split_3_fields str_split_5_fields example_trigger_def example_add_job_def)

subsection \<open>On-demand proposals\<close>

text \<open>
  \<^bold>\<open>C9.\<close> \<^verbatim>\<open>suggest_schedule_for_task\<close> always returns: \<open>None\<close> when the registry has
  no task under the id, \<open>None\<close> when \<^verbatim>\<open>propose_schedule\<close> raises on the task found,
  and the proposal when \<^verbatim>\<open>propose_schedule\<close> returns one for the task found, in a
  registry as \<^verbatim>\<open>register_task\<close> builds it (each task stored under its own id, so no
  stored task is the empty dictionary, which \<^verbatim>\<open>if not task\<close> would take for a miss).
\<close>

theorem suggest_schedule_for_task_result:
  "(map_of tasks tid = None \<longrightarrow> suggest_schedule_for_task propose_schedule tid tasks = None) \<and>
   (\<forall>task e. map_of tasks tid = Some task \<and> propose_schedule task = Inl e \<longrightarrow>
      suggest_schedule_for_task propose_schedule tid tasks = None) \<and>
   (\<forall>task proposal. registered tasks \<and> map_of tasks tid = Some task \<and>
        propose_schedule task = Inr proposal \<longrightarrow>
      suggest_schedule_for_task propose_schedule tid tasks = Some proposal)"
proof (intro conjI allI impI)
  fix task proposal
  assume h: "registered tasks \<and> map_of tasks tid = Some task \<and> propose_schedule task = Inr proposal"
  then have "(tid, task) \<in> set tasks" by (simp add: map_of_SomeD)
  with h have "task_id task = Some tid" by (auto simp: registered_def)
  then have "task \<noteq> empty_task" by (auto simp: empty_task_def)
  with h show "suggest_schedule_for_task propose_schedule tid tasks = Some proposal"
    by (simp add: suggest_schedule_for_task_def)
qed (auto simp: suggest_schedule_for_task_def)

theorem suggest_schedule_for_task_result_witness:
  "map_of [(''t1'', task_t1), (''t3'', task_t3)] ''missing'' = None \<and>
   suggest_schedule_for_task example_propose ''missing'' [(''t1'', task_t1), (''t3'', task_t3)] = None \<and>
   map_of [(''t1'', task_t1), (''t3'', task_t3)] ''t1'' = Some task_t1 \<and>
   example_propose task_t1 = Inl ''engine unavailable'' \<and>
   suggest_schedule_for_task example_propose ''t1'' [(''t1'', task_t1), (''t3'', task_t3)] = None \<and>
   registered [(''t1'', task_t1), (''t3'', task_t3)] \<and>
   map_of [(''t1'', task_t1), (''t3'', task_t3)] ''t3'' = Some task_t3 \<and>
   example_propose task_t3 = Inr (PDict [(''run_at'', PStr ''1970-01-01T01:00:00'')]) \<and>
   suggest_schedule_for_task example_propose ''t3'' [(''t1'', task_t1), (''t3'', task_t3)] =
     Some (PDict [(''run_at'', PStr ''1970-01-01T01:00:00'')])"
proof -
  have a: "map_of [(''t1'', task_t1), (''t3'', task_t3)] ''missing'' = None" by simp
  have b: "map_of [(''t1'', task_t1), (''t3'', task_t3)] ''t1'' = Some task_t1" by simp
  have c: "map_of [(''t1'', task_t1), (''t3'', task_t3)] ''t3'' = Some task_t3" by simp
  have d: "example_propose task_t1 = Inl ''engine unavailable''"
    by (simp add: example_propose_def task_t1_id)
  have e: "example_propose task_t3 = Inr (PDict [(''run_at'', PStr ''1970-01-01T01:00:00'')])"
    by (simp add: example_propose_def task_t3_fields)
  have r: "registered [(''t1'', task_t1), (''t3'', task_t3)]"
    by (simp add: registered_def task_t1_id task_t3_fields)
  show ?thesis
    using a b c d e r
      suggest_schedule_for_task_result [of "[(''t1'', task_t1), (''t3'', task_t3)]" "''missing''" example_propose]
      suggest_schedule_for_task_result [of "[(''t1'', task_t1), (''t3'', task_t3)]" "''t1''" example_propose]
      suggest_schedule_for_task_result [of "[(''t1'', task_t1), (''t3'', task_t3)]" "''t3''" example_propose]
    by simp
qed

end
